theory Spec2Isabelle
  imports Complex_Main "HOL-Library.Word"
begin

unbundle bit_operations_syntax

section \<open>Statistics negotiation (class Xapian::Weight)\<close>

text \<open>
  The enumeration \<open>Weight::stat_flags\<close>.  Several enumerators carry the same
  numeric value, so the names are kept apart here and \<open>stat_value\<close> gives the
  value each one has in the header.  The values fit a 32-bit \<open>int\<close>,
  \<open>IS_BOOLWEIGHT_\<close> being its sign bit, and the class only combines them
  with \<open>|\<close> and \<open>&\<close>, so the masks are 32-bit words.  Names that end in an
  underscore in the source are written without it.
\<close>

datatype stat_flags =
    COLLECTION_SIZE
  | RSET_SIZE
  | AVERAGE_LENGTH
  | TERMFREQ
  | RELTERMFREQ
  | QUERY_LENGTH
  | WQF
  | WDF
  | DOC_LENGTH
  | DOC_LENGTH_MIN
  | DOC_LENGTH_MAX
  | WDF_MAX
  | COLLECTION_FREQ
  | UNIQUE_TERMS
  | TOTAL_LENGTH
  | WDF_DOC_MAX
  | UNIQUE_TERMS_MIN
  | UNIQUE_TERMS_MAX
  | DB_DOC_LENGTH_MIN
  | DB_DOC_LENGTH_MAX
  | DB_UNIQUE_TERMS_MIN
  | DB_UNIQUE_TERMS_MAX
  | DB_WDF_MAX
  | IS_BOOLWEIGHT

fun stat_value :: "stat_flags \<Rightarrow> 32 word" where
  "stat_value COLLECTION_SIZE = 0"
| "stat_value RSET_SIZE = 0"
| "stat_value AVERAGE_LENGTH = 4"
| "stat_value TERMFREQ = 1"
| "stat_value RELTERMFREQ = 1"
| "stat_value QUERY_LENGTH = 0"
| "stat_value WQF = 0"
| "stat_value WDF = 2"
| "stat_value DOC_LENGTH = 8"
| "stat_value DOC_LENGTH_MIN = 16"
| "stat_value DOC_LENGTH_MAX = 32"
| "stat_value WDF_MAX = 64"
| "stat_value COLLECTION_FREQ = 1"
| "stat_value UNIQUE_TERMS = 128"
| "stat_value TOTAL_LENGTH = 256"
| "stat_value WDF_DOC_MAX = 512"
| "stat_value UNIQUE_TERMS_MIN = 1024"
| "stat_value UNIQUE_TERMS_MAX = 2048"
| "stat_value DB_DOC_LENGTH_MIN = 4096"
| "stat_value DB_DOC_LENGTH_MAX = 8192"
| "stat_value DB_UNIQUE_TERMS_MIN = 16384"
| "stat_value DB_UNIQUE_TERMS_MAX = 32768"
| "stat_value DB_WDF_MAX = 65536"
| "stat_value IS_BOOLWEIGHT = 0x80000000"

text \<open>
  The data of the base class that the constructors touch: the mask
  \<open>stats_needed\<close>, which \<open>Weight()\<close> value-initialises to zero.  The remaining
  private members hold statistics that only \<open>init_\<close> writes.
\<close>

record Weight =
  stats_needed :: "32 word"

definition Weight_default :: Weight where
  "Weight_default = \<lparr>stats_needed = 0\<rparr>"

text \<open>\<open>need_stat(flag)\<close>: \<open>stats_needed = stat_flags(stats_needed | flag)\<close>.\<close>

definition need_stat :: "stat_flags \<Rightarrow> 'a Weight_scheme \<Rightarrow> 'a Weight_scheme" where
  "need_stat flag w = w\<lparr>stats_needed := stats_needed w OR stat_value flag\<rparr>"

text \<open>A run of \<open>need_stat\<close> calls, in the order they are made.\<close>

definition need_stats :: "stat_flags list \<Rightarrow> 'a Weight_scheme \<Rightarrow> 'a Weight_scheme" where
  "need_stats flags w = foldl (\<lambda>w' flag. need_stat flag w') w flags"

text \<open>
  The test the library applies to the mask, as in \<open>get_sumpart_needs_doclength_\<close>
  (\<open>return stats_needed & DOC_LENGTH;\<close> converted to \<open>bool\<close>).
\<close>

definition stat_needed :: "'a Weight_scheme \<Rightarrow> stat_flags \<Rightarrow> bool" where
  "stat_needed w flag \<longleftrightarrow> stats_needed w AND stat_value flag \<noteq> 0"

definition get_sumpart_needs_doclength :: "'a Weight_scheme \<Rightarrow> bool" where
  "get_sumpart_needs_doclength w \<longleftrightarrow> stats_needed w AND stat_value DOC_LENGTH \<noteq> 0"

definition get_sumpart_needs_wdf :: "'a Weight_scheme \<Rightarrow> bool" where
  "get_sumpart_needs_wdf w \<longleftrightarrow> stats_needed w AND stat_value WDF \<noteq> 0"

definition get_sumpart_needs_uniqueterms :: "'a Weight_scheme \<Rightarrow> bool" where
  "get_sumpart_needs_uniqueterms w \<longleftrightarrow> stats_needed w AND stat_value UNIQUE_TERMS \<noteq> 0"

definition is_bool_weight :: "'a Weight_scheme \<Rightarrow> bool" where
  "is_bool_weight w \<longleftrightarrow> stats_needed w AND stat_value IS_BOOLWEIGHT \<noteq> 0"

definition get_sumpart_needs_wdfdocmax :: "'a Weight_scheme \<Rightarrow> bool" where
  "get_sumpart_needs_wdfdocmax w \<longleftrightarrow> stats_needed w AND stat_value WDF_DOC_MAX \<noteq> 0"

section \<open>Floating-point parameters\<close>

text \<open>
  The constructors only compare their \<open>double\<close> arguments with the constants
  \<open>0\<close> and \<open>1\<close>.  A \<open>double\<close> is a NaN, an infinity or a finite number; the
  two signed zeros compare equal to each other and to \<open>0\<close>, so both are
  \<open>Fin 0\<close>.  The comparisons follow IEEE 754: every ordered comparison with a
  NaN is false and \<open>!=\<close> with a NaN is true.
\<close>

datatype double = NaN | MInf | Fin real | PInf

text \<open>\<open>a < b\<close> on doubles.\<close>

fun dlt :: "double \<Rightarrow> double \<Rightarrow> bool" where
  "dlt NaN b = False"
| "dlt a NaN = False"
| "dlt MInf MInf = False"
| "dlt MInf b = True"
| "dlt (Fin x) MInf = False"
| "dlt (Fin x) (Fin y) = (x < y)"
| "dlt (Fin x) PInf = True"
| "dlt PInf b = False"

text \<open>\<open>a > b\<close>, \<open>a != b\<close>, \<open>a >= b\<close> and \<open>a <= b\<close> on doubles.\<close>

definition dgt :: "double \<Rightarrow> double \<Rightarrow> bool" where
  "dgt a b = dlt b a"

definition dne :: "double \<Rightarrow> double \<Rightarrow> bool" where
  "dne a b = (a = NaN \<or> b = NaN \<or> a \<noteq> b)"

definition dge :: "double \<Rightarrow> double \<Rightarrow> bool" where
  "dge a b = (dlt b a \<or> (a \<noteq> NaN \<and> a = b))"

definition dle :: "double \<Rightarrow> double \<Rightarrow> bool" where
  "dle a b = dge b a"

section \<open>BM25Weight and BM25PlusWeight: the constructors\<close>

text \<open>
  The parameter members of the two classes.  \<open>len_factor\<close> and \<open>termweight\<close>
  are \<open>mutable\<close> members that no constructor initialises, so they are not part
  of a freshly constructed object's value.
\<close>

record BM25Weight = Weight +
  param_k1 :: double
  param_k2 :: double
  param_k3 :: double
  param_b :: double
  param_min_normlen :: double

text \<open>
  The \<open>need_stat\<close> calls of the body of
  \<open>BM25Weight(k1, k2, k3, b, min_normlen)\<close>, in program order, for the member
  values the sanitising statements leave behind.
\<close>

definition BM25Weight_needs :: "double \<Rightarrow> double \<Rightarrow> double \<Rightarrow> double \<Rightarrow> stat_flags list" where
  "BM25Weight_needs k1 k2 k3 b =
     [COLLECTION_SIZE, RSET_SIZE, TERMFREQ, RELTERMFREQ, WDF, WDF_MAX] @
     (if dne k2 (Fin 0) \<or> (dne k1 (Fin 0) \<and> dne b (Fin 0))
      then [DOC_LENGTH_MIN, AVERAGE_LENGTH] else []) @
     (if dne k1 (Fin 0) \<and> dne b (Fin 0) then [DOC_LENGTH] else []) @
     (if dne k2 (Fin 0) then [DOC_LENGTH, QUERY_LENGTH] else []) @
     (if dne k3 (Fin 0) then [WQF] else [])"

text \<open>
  \<open>BM25Weight(k1, k2, k3, b, min_normlen)\<close>: the member initialisers, then
  \<open>if (param_k1 < 0) param_k1 = 0;\<close> and the same for \<open>k2\<close> and \<open>k3\<close>, then
  \<open>if (param_b < 0) param_b = 0; else if (param_b > 1) param_b = 1;\<close>, then the
  \<open>need_stat\<close> calls.
\<close>

definition new_BM25Weight :: "double \<Rightarrow> double \<Rightarrow> double \<Rightarrow> double \<Rightarrow> double \<Rightarrow> BM25Weight" where
  "new_BM25Weight k1 k2 k3 b min_normlen =
     (let k1' = (if dlt k1 (Fin 0) then Fin 0 else k1);
          k2' = (if dlt k2 (Fin 0) then Fin 0 else k2);
          k3' = (if dlt k3 (Fin 0) then Fin 0 else k3);
          b' = (if dlt b (Fin 0) then Fin 0 else if dgt b (Fin 1) then Fin 1 else b)
      in need_stats (BM25Weight_needs k1' k2' k3' b')
           \<lparr>stats_needed = 0, param_k1 = k1', param_k2 = k2', param_k3 = k3',
            param_b = b', param_min_normlen = min_normlen\<rparr>)"

text \<open>
  The flags that the constructor passed to \<open>need_stat\<close> when it built
  \<open>w\<close>: the calls depend on the sanitised members only.
\<close>

definition BM25Weight_declared :: "BM25Weight \<Rightarrow> stat_flags set" where
  "BM25Weight_declared w =
     set (BM25Weight_needs (param_k1 w) (param_k2 w) (param_k3 w) (param_b w))"

text \<open>The default constructor \<open>BM25Weight()\<close>.\<close>

definition default_BM25Weight :: BM25Weight where
  "default_BM25Weight =
     need_stats
       [COLLECTION_SIZE, RSET_SIZE, TERMFREQ, RELTERMFREQ, WDF, WDF_MAX,
        DOC_LENGTH_MIN, AVERAGE_LENGTH, DOC_LENGTH, WQF]
       \<lparr>stats_needed = 0, param_k1 = Fin 1, param_k2 = Fin 0, param_k3 = Fin 1,
        param_b = Fin (1/2), param_min_normlen = Fin (1/2)\<rparr>"

text \<open>
  \<open>BM25PlusWeight\<close> is a class of its own with the same parameter members
  and \<open>param_delta\<close> in addition.  A field name belongs to one record, so
  the members carry the prefix \<open>plus\<close> here.
\<close>

record BM25PlusWeight = Weight +
  plus_param_k1 :: double
  plus_param_k2 :: double
  plus_param_k3 :: double
  plus_param_b :: double
  plus_param_min_normlen :: double
  plus_param_delta :: double

definition BM25PlusWeight_needs :: "double \<Rightarrow> double \<Rightarrow> double \<Rightarrow> double \<Rightarrow> stat_flags list" where
  "BM25PlusWeight_needs k1 k2 k3 b =
     [COLLECTION_SIZE, RSET_SIZE, TERMFREQ, RELTERMFREQ, WDF, WDF_MAX] @
     (if dne k2 (Fin 0) \<or> (dne k1 (Fin 0) \<and> dne b (Fin 0))
      then [DOC_LENGTH_MIN, AVERAGE_LENGTH] else []) @
     (if dne k1 (Fin 0) \<and> dne b (Fin 0) then [DOC_LENGTH] else []) @
     (if dne k2 (Fin 0) then [DOC_LENGTH, QUERY_LENGTH] else []) @
     (if dne k3 (Fin 0) then [WQF] else [])"

text \<open>
  \<open>BM25PlusWeight(k1, k2, k3, b, min_normlen, delta)\<close>; \<open>param_delta\<close> is
  sanitised after \<open>param_k3\<close> and before \<open>param_b\<close>.
\<close>

definition new_BM25PlusWeight ::
  "double \<Rightarrow> double \<Rightarrow> double \<Rightarrow> double \<Rightarrow> double \<Rightarrow> double \<Rightarrow> BM25PlusWeight" where
  "new_BM25PlusWeight k1 k2 k3 b min_normlen delta =
     (let k1' = (if dlt k1 (Fin 0) then Fin 0 else k1);
          k2' = (if dlt k2 (Fin 0) then Fin 0 else k2);
          k3' = (if dlt k3 (Fin 0) then Fin 0 else k3);
          delta' = (if dlt delta (Fin 0) then Fin 0 else delta);
          b' = (if dlt b (Fin 0) then Fin 0 else if dgt b (Fin 1) then Fin 1 else b)
      in need_stats (BM25PlusWeight_needs k1' k2' k3' b')
           \<lparr>stats_needed = 0, plus_param_k1 = k1', plus_param_k2 = k2',
            plus_param_k3 = k3', plus_param_b = b',
            plus_param_min_normlen = min_normlen, plus_param_delta = delta'\<rparr>)"

definition BM25PlusWeight_declared :: "BM25PlusWeight \<Rightarrow> stat_flags set" where
  "BM25PlusWeight_declared w =
     set (BM25PlusWeight_needs (plus_param_k1 w) (plus_param_k2 w) (plus_param_k3 w)
            (plus_param_b w))"

section \<open>SynonymPostList\<close>

type_synonym termcount = "32 word"
type_synonym docid = "32 word"

text \<open>
  What a \<open>const Weight*\<close> gives access to: the base-class data and the
  object's implementations of the pure virtual \<open>get_sumpart\<close> and
  \<open>get_maxpart\<close>.
\<close>

record Weight_object = Weight +
  get_sumpart :: "termcount \<Rightarrow> termcount \<Rightarrow> termcount \<Rightarrow> termcount \<Rightarrow> double"
  get_maxpart :: double

text \<open>
  The virtual methods of the wrapped \<open>PostList\<close> that \<open>SynonymPostList\<close>
  reaches through \<open>WrapperPostList\<close>.  \<open>'p\<close> is the state of the wrapped
  posting list and \<open>'r\<close> what \<open>next\<close> and \<open>skip_to\<close> return.
\<close>

record ('p, 'r) PostList_methods =
  pl_next :: "double \<Rightarrow> 'p \<Rightarrow> 'r \<times> 'p"
  pl_skip_to :: "docid \<Rightarrow> double \<Rightarrow> 'p \<Rightarrow> 'r \<times> 'p"
  pl_get_wdf :: "'p \<Rightarrow> termcount"
  pl_get_docid :: "'p \<Rightarrow> docid"

text \<open>
  The members of \<open>SynonymPostList\<close>: \<open>pl\<close> is inherited from
  \<open>WrapperPostList\<close>; \<open>wt\<close> is the owned weight (\<open>None\<close> for a null
  pointer); \<open>pltree\<close> is used only through \<open>get_doclength\<close>, so it is the
  function from document ids to lengths.  The class declaration is not among
  the sources: \<open>needs_doclen\<close> is read by \<open>get_weight\<close> and written by none
  of the member functions given, so it is a member whose value the
  construction fixes.
\<close>

record 'p SynonymPostList =
  pl :: 'p
  wt :: "Weight_object option"
  want_wdf :: bool
  want_wdfdocmax :: bool
  needs_doclen :: bool
  pltree :: "docid \<Rightarrow> termcount"


text \<open>
  Modelled from the spec: \<open>WrapperPostList::next\<close> and
  \<open>WrapperPostList::skip_to\<close> (wrapperpostlist.cc is not among the sources)
  hand the call, with the threshold they are given, to the wrapped child and
  return what it returns; the child's new state replaces the old.
\<close>

definition WrapperPostList_next ::
  "('p, 'r) PostList_methods \<Rightarrow> double \<Rightarrow> 'p SynonymPostList \<Rightarrow> 'r \<times> 'p SynonymPostList" where
  "WrapperPostList_next m w_min s =
     (case pl_next m w_min (pl s) of (r, p') \<Rightarrow> (r, s\<lparr>pl := p'\<rparr>))"

definition WrapperPostList_skip_to ::
  "('p, 'r) PostList_methods \<Rightarrow> docid \<Rightarrow> double \<Rightarrow> 'p SynonymPostList \<Rightarrow> 'r \<times> 'p SynonymPostList" where
  "WrapperPostList_skip_to m did w_min s =
     (case pl_skip_to m did w_min (pl s) of (r, p') \<Rightarrow> (r, s\<lparr>pl := p'\<rparr>))"

text \<open>\<open>SynonymPostList::next(w_min)\<close>: \<open>(void)w_min; RETURN(WrapperPostList::next(0.0));\<close>\<close>

definition SynonymPostList_next ::
  "('p, 'r) PostList_methods \<Rightarrow> double \<Rightarrow> 'p SynonymPostList \<Rightarrow> 'r \<times> 'p SynonymPostList" where
  "SynonymPostList_next m w_min s = WrapperPostList_next m (Fin 0) s"

text \<open>\<open>SynonymPostList::skip_to(did, w_min)\<close>.\<close>

definition SynonymPostList_skip_to ::
  "('p, 'r) PostList_methods \<Rightarrow> docid \<Rightarrow> double \<Rightarrow> 'p SynonymPostList \<Rightarrow> 'r \<times> 'p SynonymPostList" where
  "SynonymPostList_skip_to m did w_min s = WrapperPostList_skip_to m did (Fin 0) s"



text \<open>\<open>recalc_maxweight()\<close>: \<open>RETURN(wt->get_maxpart());\<close>\<close>

definition recalc_maxweight :: "'p SynonymPostList \<Rightarrow> double option" where
  "recalc_maxweight s = map_option get_maxpart (wt s)"

text \<open>\<open>count_matching_subqs()\<close>: \<open>return 1;\<close>\<close>

definition count_matching_subqs :: "'p SynonymPostList \<Rightarrow> termcount" where
  "count_matching_subqs s = 1"

section \<open>Sample objects\<close>




section \<open>Properties of the negotiation\<close>

lemma stats_needed_need_stat:
  "stats_needed (need_stat flag w) = stats_needed w OR stat_value flag"
  by (simp add: need_stat_def)

lemma need_stats_Nil: "need_stats [] w = w"
  by (simp add: need_stats_def)

lemma need_stats_Cons: "need_stats (flag # flags) w = need_stats flags (need_stat flag w)"
  by (simp add: need_stats_def)

lemma need_stats_append: "need_stats (xs @ ys) w = need_stats ys (need_stats xs w)"
  by (simp add: need_stats_def)

lemma bit_need_stats_mono:
  "bit (stats_needed w) n \<Longrightarrow> bit (stats_needed (need_stats flags w)) n"
proof (induction flags arbitrary: w)
  case Nil
  then show ?case by (simp add: need_stats_Nil)
next
  case (Cons flag flags)
  have "bit (stats_needed (need_stat flag w)) n"
    using Cons.prems by (simp add: stats_needed_need_stat bit_or_iff)
  then show ?case
    by (simp add: need_stats_Cons Cons.IH)
qed

lemma get_sumpart_needs_stat_needed:
  "get_sumpart_needs_doclength w = stat_needed w DOC_LENGTH"
  "get_sumpart_needs_wdf w = stat_needed w WDF"
  "get_sumpart_needs_uniqueterms w = stat_needed w UNIQUE_TERMS"
  "get_sumpart_needs_wdfdocmax w = stat_needed w WDF_DOC_MAX"
  "is_bool_weight w = stat_needed w IS_BOOLWEIGHT"
  by (simp_all add: stat_needed_def get_sumpart_needs_doclength_def get_sumpart_needs_wdf_def
      get_sumpart_needs_uniqueterms_def get_sumpart_needs_wdfdocmax_def is_bool_weight_def)

lemma need_stat_idem: "need_stat flag (need_stat flag w) = need_stat flag w"
  by (simp add: need_stat_def)

lemma word_or_and_neq0:
  "((a OR b) AND c \<noteq> 0) = (a AND c \<noteq> 0 \<or> b AND c \<noteq> (0 :: 32 word))"
  by (simp add: bit.conj_disj_distrib2 or_eq_0_iff)

lemma stat_needed_need_stat:
  "stat_needed (need_stat f w) g \<longleftrightarrow> stat_needed w g \<or> stat_value f AND stat_value g \<noteq> 0"
  by (simp add: stat_needed_def stats_needed_need_stat word_or_and_neq0)

lemma stat_needed_need_stats_mono:
  "stat_needed w g \<Longrightarrow> stat_needed (need_stats flags w) g"
proof (induction flags arbitrary: w)
  case Nil
  then show ?case by (simp add: need_stats_Nil)
next
  case (Cons flag flags)
  from Cons.prems have "stat_needed (need_stat flag w) g"
    by (simp add: stat_needed_need_stat)
  then show ?case
    by (simp add: need_stats_Cons Cons.IH)
qed

text \<open>
  Two different enumerators have a bit in common only when both are among the
  three of value 1.
\<close>

lemma stat_value_overlap:
  "f \<noteq> g \<Longrightarrow>
     (stat_value f AND stat_value g \<noteq> 0) =
     (f \<in> {TERMFREQ, RELTERMFREQ, COLLECTION_FREQ} \<and> g \<in> {TERMFREQ, RELTERMFREQ, COLLECTION_FREQ})"
  by (cases f; cases g; simp)

text \<open>
  C7.  \<open>need_stat\<close> is additive, idempotent and monotonic.  The declared set
  is the mask \<open>stats_needed\<close>, a flag contributing the bits of its value:
  after \<open>need_stat(flag)\<close> the mask holds exactly the bits it held before
  together with those of the flag; a second call with the same flag changes
  nothing; and whatever calls follow, no bit that was set is cleared, so every
  flag the mask test reported as needed is still reported.  In terms of the
  mask test: after \<open>need_stat(flag)\<close> a flag is reported as needed when it was
  before or when its value has a bit in common with that of \<open>flag\<close>.
\<close>

theorem need_stat_additive_idempotent_monotonic:
  "(\<forall>n. bit (stats_needed (need_stat flag w)) n \<longleftrightarrow>
         bit (stats_needed w) n \<or> bit (stat_value flag) n)
   \<and> need_stat flag (need_stat flag w) = need_stat flag w
   \<and> (\<forall>n. bit (stats_needed w) n \<longrightarrow> bit (stats_needed (need_stats flags w)) n)
   \<and> (\<forall>g. stat_needed w g \<longrightarrow> stat_needed (need_stats flags w) g)
   \<and> (\<forall>g. stat_needed (need_stat flag w) g \<longleftrightarrow>
            stat_needed w g \<or> stat_value flag AND stat_value g \<noteq> 0)"
proof (intro conjI allI impI)
  fix n
  show "bit (stats_needed (need_stat flag w)) n \<longleftrightarrow>
          bit (stats_needed w) n \<or> bit (stat_value flag) n"
    by (simp add: stats_needed_need_stat bit_or_iff)
next
  show "need_stat flag (need_stat flag w) = need_stat flag w"
    by (rule need_stat_idem)
next
  fix n
  assume "bit (stats_needed w) n"
  then show "bit (stats_needed (need_stats flags w)) n"
    by (rule bit_need_stats_mono)
next
  fix g
  assume "stat_needed w g"
  then show "stat_needed (need_stats flags w) g"
    by (rule stat_needed_need_stats_mono)
next
  fix g
  show "stat_needed (need_stat flag w) g \<longleftrightarrow>
          stat_needed w g \<or> stat_value flag AND stat_value g \<noteq> 0"
    by (rule stat_needed_need_stat)
qed

theorem need_stat_additive_witness:
  "bit (stats_needed \<lparr>stats_needed = 2\<rparr>) 1
   \<and> bit (stats_needed (need_stats [DOC_LENGTH, WQF, TERMFREQ] \<lparr>stats_needed = 2\<rparr>)) 1
   \<and> stat_needed \<lparr>stats_needed = 2\<rparr> WDF
   \<and> stat_needed (need_stats [DOC_LENGTH, WQF, TERMFREQ] \<lparr>stats_needed = 2\<rparr>) WDF
   \<and> stats_needed (need_stats [DOC_LENGTH, WQF, TERMFREQ] \<lparr>stats_needed = 2\<rparr>) = 11"
proof -
  have b: "bit (stats_needed \<lparr>stats_needed = 2\<rparr>) 1"
    by simp
  have d: "stat_needed \<lparr>stats_needed = 2\<rparr> WDF"
    by (simp add: stat_needed_def)
  note t = need_stat_additive_idempotent_monotonic
             [of DOC_LENGTH "\<lparr>stats_needed = 2\<rparr>" "[DOC_LENGTH, WQF, TERMFREQ]"]
  from t b have b': "bit (stats_needed (need_stats [DOC_LENGTH, WQF, TERMFREQ] \<lparr>stats_needed = 2\<rparr>)) 1"
    by blast
  from t d have d': "stat_needed (need_stats [DOC_LENGTH, WQF, TERMFREQ] \<lparr>stats_needed = 2\<rparr>) WDF"
    by blast
  have v: "stats_needed (need_stats [DOC_LENGTH, WQF, TERMFREQ] \<lparr>stats_needed = 2\<rparr>) = 11"
    by (simp add: need_stats_def need_stat_def)
  from b b' d d' v show ?thesis by blast
qed

text \<open>
  C8, as the code has it.  Declaring a flag \<open>f\<close> changes what the mask test
  reports for another flag \<open>g\<close> in one case only: \<open>TERMFREQ\<close>, \<open>RELTERMFREQ\<close>
  and \<open>COLLECTION_FREQ\<close> all have value 1, so declaring any of them makes
  the test succeed for all three.  For every other pair of different flags the
  status of \<open>g\<close> is untouched; this covers the four flags of value 0, which set
  no bit.
\<close>

theorem need_stat_frame:
  "(f \<noteq> g \<longrightarrow>
      (stat_needed (need_stat f w) g \<longleftrightarrow>
         stat_needed w g \<or>
         (f \<in> {TERMFREQ, RELTERMFREQ, COLLECTION_FREQ} \<and>
          g \<in> {TERMFREQ, RELTERMFREQ, COLLECTION_FREQ})))
   \<and> stat_value TERMFREQ = 1 \<and> stat_value RELTERMFREQ = 1 \<and> stat_value COLLECTION_FREQ = 1
   \<and> stat_value COLLECTION_SIZE = 0 \<and> stat_value RSET_SIZE = 0
   \<and> stat_value QUERY_LENGTH = 0 \<and> stat_value WQF = 0"
  by (simp add: stat_needed_need_stat stat_value_overlap)

theorem need_stat_frame_witness:
  "WDF \<noteq> DOC_LENGTH
   \<and> \<not> stat_needed Weight_default DOC_LENGTH
   \<and> \<not> stat_needed (need_stat WDF Weight_default) DOC_LENGTH
   \<and> COLLECTION_SIZE \<noteq> RSET_SIZE
   \<and> \<not> stat_needed Weight_default RSET_SIZE
   \<and> \<not> stat_needed (need_stat COLLECTION_SIZE Weight_default) RSET_SIZE"
  using need_stat_frame [of WDF DOC_LENGTH Weight_default]
    need_stat_frame [of COLLECTION_SIZE RSET_SIZE Weight_default]
  by (simp add: stat_needed_def Weight_default_def)

text \<open>
  The claim as stated fails for flags of equal non-zero value: on a fresh
  object \<open>RELTERMFREQ\<close> is not reported as needed, and after
  \<open>need_stat(TERMFREQ)\<close> it is.
\<close>

theorem need_stat_aliased_flags_counterexample:
  "TERMFREQ \<noteq> RELTERMFREQ
   \<and> \<not> stat_needed Weight_default RELTERMFREQ
   \<and> stat_needed (need_stat TERMFREQ Weight_default) RELTERMFREQ"
  by (simp add: stat_needed_def need_stat_def Weight_default_def)

section \<open>Properties of SynonymPostList\<close>

text \<open>
  C4.  \<open>count_matching_subqs()\<close> is 1 for every \<open>SynonymPostList\<close>, whatever
  it wraps: the result does not change when the wrapped subtree is replaced by
  any other.
\<close>

theorem count_matching_subqs_is_one:
  "count_matching_subqs s = 1 \<and> count_matching_subqs (s\<lparr>pl := p\<rparr>) = count_matching_subqs s"
  by (simp add: count_matching_subqs_def)

text \<open>
  C5.  \<open>next(w_min)\<close> returns what the wrapped child's \<open>next(0.0)\<close> returns
  and leaves the child in the state that call leaves it in, and \<open>skip_to(did,
  w_min)\<close> does the same with the child's \<open>skip_to(did, 0.0)\<close>; the result
  is the same for any two thresholds, so \<open>w_min\<close> never reaches the child.
\<close>

theorem SynonymPostList_passes_zero_threshold:
  "SynonymPostList_next m w_min s = WrapperPostList_next m (Fin 0) s
   \<and> SynonymPostList_next m w_min s =
       (case pl_next m (Fin 0) (pl s) of (r, p') \<Rightarrow> (r, s\<lparr>pl := p'\<rparr>))
   \<and> SynonymPostList_skip_to m did w_min s = WrapperPostList_skip_to m did (Fin 0) s
   \<and> SynonymPostList_skip_to m did w_min s =
       (case pl_skip_to m did (Fin 0) (pl s) of (r, p') \<Rightarrow> (r, s\<lparr>pl := p'\<rparr>))
   \<and> SynonymPostList_next m w_min s = SynonymPostList_next m w_min' s
   \<and> SynonymPostList_skip_to m did w_min s = SynonymPostList_skip_to m did w_min' s"
  by (simp add: SynonymPostList_next_def SynonymPostList_skip_to_def
      WrapperPostList_next_def WrapperPostList_skip_to_def)




section \<open>Properties of the BM25 constructors\<close>

lemma need_stats_mask:
  "need_stats flags w = w\<lparr>stats_needed := foldl (OR) (stats_needed w) (map stat_value flags)\<rparr>"
proof (induction flags arbitrary: w)
  case Nil
  show ?case by (simp add: need_stats_Nil)
next
  case (Cons flag flags)
  show ?case
    by (simp add: need_stats_Cons Cons.IH) (simp add: need_stat_def)
qed

lemma bit_foldl_or:
  "bit (foldl (OR) (a :: 32 word) (map v fs)) n \<longleftrightarrow> bit a n \<or> (\<exists>f \<in> set fs. bit (v f) n)"
  by (induction fs arbitrary: a) (auto simp: bit_or_iff)

lemma dlt_zero_cases: "a \<noteq> NaN \<Longrightarrow> \<not> dlt a (Fin 0) \<Longrightarrow> dge a (Fin 0)"
  by (cases a) (auto simp: dge_def)

lemma dge_zero_zero: "dge (Fin 0) (Fin 0)"
  by (simp add: dge_def)

lemma clamp_nonneg:
  "a \<noteq> NaN \<Longrightarrow> dge (if dlt a (Fin 0) then Fin 0 else a) (Fin 0)"
  by (simp add: dlt_zero_cases dge_zero_zero)

lemma clamp_unit:
  "b \<noteq> NaN \<Longrightarrow>
     dge (if dlt b (Fin 0) then Fin 0 else if dgt b (Fin 1) then Fin 1 else b) (Fin 0) \<and>
     dle (if dlt b (Fin 0) then Fin 0 else if dgt b (Fin 1) then Fin 1 else b) (Fin 1)"
  by (cases b) (auto simp: dge_def dle_def dgt_def)

lemma dgt_one_not_neg: "dgt b (Fin 1) \<Longrightarrow> \<not> dlt b (Fin 0)"
  by (cases b) (simp_all add: dgt_def)

lemma dne_zero_iff: "dne a (Fin 0) \<longleftrightarrow> a \<noteq> Fin 0"
  by (auto simp: dne_def)

lemma new_BM25Weight_params:
  "param_k1 (new_BM25Weight k1 k2 k3 b mn) = (if dlt k1 (Fin 0) then Fin 0 else k1)"
  "param_k2 (new_BM25Weight k1 k2 k3 b mn) = (if dlt k2 (Fin 0) then Fin 0 else k2)"
  "param_k3 (new_BM25Weight k1 k2 k3 b mn) = (if dlt k3 (Fin 0) then Fin 0 else k3)"
  "param_b (new_BM25Weight k1 k2 k3 b mn) =
     (if dlt b (Fin 0) then Fin 0 else if dgt b (Fin 1) then Fin 1 else b)"
  "param_min_normlen (new_BM25Weight k1 k2 k3 b mn) = mn"
  by (simp_all add: new_BM25Weight_def Let_def need_stats_mask)

lemma new_BM25PlusWeight_params:
  "plus_param_k1 (new_BM25PlusWeight k1 k2 k3 b mn delta) = (if dlt k1 (Fin 0) then Fin 0 else k1)"
  "plus_param_k2 (new_BM25PlusWeight k1 k2 k3 b mn delta) = (if dlt k2 (Fin 0) then Fin 0 else k2)"
  "plus_param_k3 (new_BM25PlusWeight k1 k2 k3 b mn delta) = (if dlt k3 (Fin 0) then Fin 0 else k3)"
  "plus_param_b (new_BM25PlusWeight k1 k2 k3 b mn delta) =
     (if dlt b (Fin 0) then Fin 0 else if dgt b (Fin 1) then Fin 1 else b)"
  "plus_param_min_normlen (new_BM25PlusWeight k1 k2 k3 b mn delta) = mn"
  "plus_param_delta (new_BM25PlusWeight k1 k2 k3 b mn delta) =
     (if dlt delta (Fin 0) then Fin 0 else delta)"
  by (simp_all add: new_BM25PlusWeight_def Let_def need_stats_mask)

text \<open>The default constructor builds what the five-argument one builds from the defaults.\<close>

lemma default_BM25Weight_eq:
  "default_BM25Weight = new_BM25Weight (Fin 1) (Fin 0) (Fin 1) (Fin (1/2)) (Fin (1/2))"
  by (simp add: default_BM25Weight_def new_BM25Weight_def BM25Weight_needs_def dne_def dgt_def Let_def)

lemma new_BM25Weight_mask:
  "stats_needed (new_BM25Weight k1 k2 k3 b mn) =
     foldl (OR) 0 (map stat_value
       (BM25Weight_needs (param_k1 (new_BM25Weight k1 k2 k3 b mn))
          (param_k2 (new_BM25Weight k1 k2 k3 b mn))
          (param_k3 (new_BM25Weight k1 k2 k3 b mn))
          (param_b (new_BM25Weight k1 k2 k3 b mn))))"
  unfolding new_BM25Weight_params
  by (simp add: new_BM25Weight_def Let_def need_stats_mask)

lemma new_BM25PlusWeight_mask:
  "stats_needed (new_BM25PlusWeight k1 k2 k3 b mn delta) =
     foldl (OR) 0 (map stat_value
       (BM25PlusWeight_needs (plus_param_k1 (new_BM25PlusWeight k1 k2 k3 b mn delta))
          (plus_param_k2 (new_BM25PlusWeight k1 k2 k3 b mn delta))
          (plus_param_k3 (new_BM25PlusWeight k1 k2 k3 b mn delta))
          (plus_param_b (new_BM25PlusWeight k1 k2 k3 b mn delta))))"
  unfolding new_BM25PlusWeight_params
  by (simp add: new_BM25PlusWeight_def Let_def need_stats_mask)

lemma new_BM25Weight_mask_bits:
  "bit (stats_needed (new_BM25Weight k1 k2 k3 b mn)) n \<longleftrightarrow>
     (\<exists>f \<in> BM25Weight_declared (new_BM25Weight k1 k2 k3 b mn). bit (stat_value f) n)"
  by (simp add: new_BM25Weight_mask bit_foldl_or BM25Weight_declared_def)

lemma new_BM25PlusWeight_mask_bits:
  "bit (stats_needed (new_BM25PlusWeight k1 k2 k3 b mn delta)) n \<longleftrightarrow>
     (\<exists>f \<in> BM25PlusWeight_declared (new_BM25PlusWeight k1 k2 k3 b mn delta). bit (stat_value f) n)"
  by (simp add: new_BM25PlusWeight_mask bit_foldl_or BM25PlusWeight_declared_def)

lemma BM25Weight_doclen_stats:
  assumes "w = new_BM25Weight k1 k2 k3 b mn"
  shows "stat_needed w DOC_LENGTH \<longleftrightarrow>
           (dne (param_k1 w) (Fin 0) \<and> dne (param_b w) (Fin 0)) \<or> dne (param_k2 w) (Fin 0)"
    and "stat_needed w DOC_LENGTH_MIN \<longleftrightarrow>
           (dne (param_k1 w) (Fin 0) \<and> dne (param_b w) (Fin 0)) \<or> dne (param_k2 w) (Fin 0)"
    and "stat_needed w AVERAGE_LENGTH \<longleftrightarrow>
           (dne (param_k1 w) (Fin 0) \<and> dne (param_b w) (Fin 0)) \<or> dne (param_k2 w) (Fin 0)"
    and "stat_needed w TERMFREQ" and "stat_needed w WDF" and "stat_needed w WDF_MAX"
  unfolding assms stat_needed_def new_BM25Weight_mask
  by (simp_all add: BM25Weight_needs_def)

lemma BM25PlusWeight_doclen_stats:
  assumes "w = new_BM25PlusWeight k1 k2 k3 b mn delta"
  shows "stat_needed w DOC_LENGTH \<longleftrightarrow>
           (dne (plus_param_k1 w) (Fin 0) \<and> dne (plus_param_b w) (Fin 0)) \<or> dne (plus_param_k2 w) (Fin 0)"
    and "stat_needed w DOC_LENGTH_MIN \<longleftrightarrow>
           (dne (plus_param_k1 w) (Fin 0) \<and> dne (plus_param_b w) (Fin 0)) \<or> dne (plus_param_k2 w) (Fin 0)"
    and "stat_needed w AVERAGE_LENGTH \<longleftrightarrow>
           (dne (plus_param_k1 w) (Fin 0) \<and> dne (plus_param_b w) (Fin 0)) \<or> dne (plus_param_k2 w) (Fin 0)"
  unfolding assms stat_needed_def new_BM25PlusWeight_mask
  by (simp_all add: BM25PlusWeight_needs_def)

lemma BM25Weight_declared_flags:
  "DOC_LENGTH \<in> BM25Weight_declared w \<longleftrightarrow>
     (dne (param_k1 w) (Fin 0) \<and> dne (param_b w) (Fin 0)) \<or> dne (param_k2 w) (Fin 0)"
  "DOC_LENGTH_MIN \<in> BM25Weight_declared w \<longleftrightarrow>
     (dne (param_k1 w) (Fin 0) \<and> dne (param_b w) (Fin 0)) \<or> dne (param_k2 w) (Fin 0)"
  "AVERAGE_LENGTH \<in> BM25Weight_declared w \<longleftrightarrow>
     (dne (param_k1 w) (Fin 0) \<and> dne (param_b w) (Fin 0)) \<or> dne (param_k2 w) (Fin 0)"
  "QUERY_LENGTH \<in> BM25Weight_declared w \<longleftrightarrow> dne (param_k2 w) (Fin 0)"
  "WQF \<in> BM25Weight_declared w \<longleftrightarrow> dne (param_k3 w) (Fin 0)"
  "{COLLECTION_SIZE, RSET_SIZE, TERMFREQ, RELTERMFREQ, WDF, WDF_MAX} \<subseteq> BM25Weight_declared w"
  "BM25Weight_declared w \<subseteq>
     {COLLECTION_SIZE, RSET_SIZE, TERMFREQ, RELTERMFREQ, WDF, WDF_MAX,
      DOC_LENGTH_MIN, AVERAGE_LENGTH, DOC_LENGTH, QUERY_LENGTH, WQF}"
  by (auto simp: BM25Weight_declared_def BM25Weight_needs_def)

lemma BM25PlusWeight_declared_flags:
  "DOC_LENGTH \<in> BM25PlusWeight_declared w \<longleftrightarrow>
     (dne (plus_param_k1 w) (Fin 0) \<and> dne (plus_param_b w) (Fin 0)) \<or> dne (plus_param_k2 w) (Fin 0)"
  "DOC_LENGTH_MIN \<in> BM25PlusWeight_declared w \<longleftrightarrow>
     (dne (plus_param_k1 w) (Fin 0) \<and> dne (plus_param_b w) (Fin 0)) \<or> dne (plus_param_k2 w) (Fin 0)"
  "AVERAGE_LENGTH \<in> BM25PlusWeight_declared w \<longleftrightarrow>
     (dne (plus_param_k1 w) (Fin 0) \<and> dne (plus_param_b w) (Fin 0)) \<or> dne (plus_param_k2 w) (Fin 0)"
  "QUERY_LENGTH \<in> BM25PlusWeight_declared w \<longleftrightarrow> dne (plus_param_k2 w) (Fin 0)"
  "WQF \<in> BM25PlusWeight_declared w \<longleftrightarrow> dne (plus_param_k3 w) (Fin 0)"
  "{COLLECTION_SIZE, RSET_SIZE, TERMFREQ, RELTERMFREQ, WDF, WDF_MAX} \<subseteq> BM25PlusWeight_declared w"
  "BM25PlusWeight_declared w \<subseteq>
     {COLLECTION_SIZE, RSET_SIZE, TERMFREQ, RELTERMFREQ, WDF, WDF_MAX,
      DOC_LENGTH_MIN, AVERAGE_LENGTH, DOC_LENGTH, QUERY_LENGTH, WQF}"
  by (auto simp: BM25PlusWeight_declared_def BM25PlusWeight_needs_def)

text \<open>
  C6, as the code has it.  The mask of a constructed object holds exactly the
  bits of the flags its constructor declared.  Six flags are always declared;
  \<open>DOC_LENGTH\<close>, \<open>DOC_LENGTH_MIN\<close> and \<open>AVERAGE_LENGTH\<close> are declared, and
  reported by the mask test, exactly when \<open>k1\<close> and \<open>b\<close> are both non-zero or
  \<open>k2\<close> is non-zero; \<open>QUERY_LENGTH\<close> exactly when \<open>k2\<close> is non-zero; \<open>WQF\<close>
  exactly when \<open>k3\<close> is non-zero; nothing else is declared.  In particular
  the document-length statistics are not declared when \<open>k1 * b = 0\<close> (one of
  the two is zero) and \<open>k2 = 0\<close>, and \<open>WQF\<close> is not declared when \<open>k3 = 0\<close>.
  The parameters are the members of the constructed object, that is, the
  arguments after sanitising.  The same holds for \<open>BM25PlusWeight\<close>.
\<close>

theorem BM25_declares_what_parameters_require:
  assumes "w = new_BM25Weight k1 k2 k3 b mn"
    and "p = new_BM25PlusWeight k1 k2 k3 b mn delta"
  shows
    "(\<forall>n. bit (stats_needed w) n \<longleftrightarrow> (\<exists>f \<in> BM25Weight_declared w. bit (stat_value f) n))
     \<and> {COLLECTION_SIZE, RSET_SIZE, TERMFREQ, RELTERMFREQ, WDF, WDF_MAX} \<subseteq> BM25Weight_declared w
     \<and> BM25Weight_declared w \<subseteq>
         {COLLECTION_SIZE, RSET_SIZE, TERMFREQ, RELTERMFREQ, WDF, WDF_MAX,
          DOC_LENGTH_MIN, AVERAGE_LENGTH, DOC_LENGTH, QUERY_LENGTH, WQF}
     \<and> (\<forall>f \<in> {DOC_LENGTH, DOC_LENGTH_MIN, AVERAGE_LENGTH}.
          (f \<in> BM25Weight_declared w \<longleftrightarrow>
             (param_k1 w \<noteq> Fin 0 \<and> param_b w \<noteq> Fin 0) \<or> param_k2 w \<noteq> Fin 0)
          \<and> (stat_needed w f \<longleftrightarrow> f \<in> BM25Weight_declared w))
     \<and> (QUERY_LENGTH \<in> BM25Weight_declared w \<longleftrightarrow> param_k2 w \<noteq> Fin 0)
     \<and> (WQF \<in> BM25Weight_declared w \<longleftrightarrow> param_k3 w \<noteq> Fin 0)
     \<and> ((param_k1 w = Fin 0 \<or> param_b w = Fin 0) \<and> param_k2 w = Fin 0 \<longrightarrow>
          (\<forall>f \<in> {DOC_LENGTH, DOC_LENGTH_MIN, AVERAGE_LENGTH}.
             f \<notin> BM25Weight_declared w \<and> \<not> stat_needed w f))
     \<and> (param_k3 w = Fin 0 \<longrightarrow> WQF \<notin> BM25Weight_declared w)
     \<and> (\<forall>n. bit (stats_needed p) n \<longleftrightarrow> (\<exists>f \<in> BM25PlusWeight_declared p. bit (stat_value f) n))
     \<and> {COLLECTION_SIZE, RSET_SIZE, TERMFREQ, RELTERMFREQ, WDF, WDF_MAX} \<subseteq> BM25PlusWeight_declared p
     \<and> BM25PlusWeight_declared p \<subseteq>
         {COLLECTION_SIZE, RSET_SIZE, TERMFREQ, RELTERMFREQ, WDF, WDF_MAX,
          DOC_LENGTH_MIN, AVERAGE_LENGTH, DOC_LENGTH, QUERY_LENGTH, WQF}
     \<and> (\<forall>f \<in> {DOC_LENGTH, DOC_LENGTH_MIN, AVERAGE_LENGTH}.
          (f \<in> BM25PlusWeight_declared p \<longleftrightarrow>
             (plus_param_k1 p \<noteq> Fin 0 \<and> plus_param_b p \<noteq> Fin 0) \<or> plus_param_k2 p \<noteq> Fin 0)
          \<and> (stat_needed p f \<longleftrightarrow> f \<in> BM25PlusWeight_declared p))
     \<and> (QUERY_LENGTH \<in> BM25PlusWeight_declared p \<longleftrightarrow> plus_param_k2 p \<noteq> Fin 0)
     \<and> (WQF \<in> BM25PlusWeight_declared p \<longleftrightarrow> plus_param_k3 p \<noteq> Fin 0)
     \<and> ((plus_param_k1 p = Fin 0 \<or> plus_param_b p = Fin 0) \<and> plus_param_k2 p = Fin 0 \<longrightarrow>
          (\<forall>f \<in> {DOC_LENGTH, DOC_LENGTH_MIN, AVERAGE_LENGTH}.
             f \<notin> BM25PlusWeight_declared p \<and> \<not> stat_needed p f))
     \<and> (plus_param_k3 p = Fin 0 \<longrightarrow> WQF \<notin> BM25PlusWeight_declared p)"
proof -
  have w_bits: "\<forall>n. bit (stats_needed w) n \<longleftrightarrow> (\<exists>f \<in> BM25Weight_declared w. bit (stat_value f) n)"
    unfolding assms(1) by (simp add: new_BM25Weight_mask_bits)
  have p_bits: "\<forall>n. bit (stats_needed p) n \<longleftrightarrow> (\<exists>f \<in> BM25PlusWeight_declared p. bit (stat_value f) n)"
    unfolding assms(2) by (simp add: new_BM25PlusWeight_mask_bits)
  have w_len: "\<forall>f \<in> {DOC_LENGTH, DOC_LENGTH_MIN, AVERAGE_LENGTH}.
          (f \<in> BM25Weight_declared w \<longleftrightarrow>
             (param_k1 w \<noteq> Fin 0 \<and> param_b w \<noteq> Fin 0) \<or> param_k2 w \<noteq> Fin 0)
          \<and> (stat_needed w f \<longleftrightarrow> f \<in> BM25Weight_declared w)"
    by (simp add: BM25Weight_declared_flags BM25Weight_doclen_stats [OF assms(1)] dne_zero_iff)
  have p_len: "\<forall>f \<in> {DOC_LENGTH, DOC_LENGTH_MIN, AVERAGE_LENGTH}.
          (f \<in> BM25PlusWeight_declared p \<longleftrightarrow>
             (plus_param_k1 p \<noteq> Fin 0 \<and> plus_param_b p \<noteq> Fin 0) \<or> plus_param_k2 p \<noteq> Fin 0)
          \<and> (stat_needed p f \<longleftrightarrow> f \<in> BM25PlusWeight_declared p)"
    by (simp add: BM25PlusWeight_declared_flags BM25PlusWeight_doclen_stats [OF assms(2)] dne_zero_iff)
  have w_q: "QUERY_LENGTH \<in> BM25Weight_declared w \<longleftrightarrow> param_k2 w \<noteq> Fin 0"
    "WQF \<in> BM25Weight_declared w \<longleftrightarrow> param_k3 w \<noteq> Fin 0"
    by (simp_all add: BM25Weight_declared_flags dne_zero_iff)
  have p_q: "QUERY_LENGTH \<in> BM25PlusWeight_declared p \<longleftrightarrow> plus_param_k2 p \<noteq> Fin 0"
    "WQF \<in> BM25PlusWeight_declared p \<longleftrightarrow> plus_param_k3 p \<noteq> Fin 0"
    by (simp_all add: BM25PlusWeight_declared_flags dne_zero_iff)
  have w_none: "(param_k1 w = Fin 0 \<or> param_b w = Fin 0) \<and> param_k2 w = Fin 0 \<longrightarrow>
          (\<forall>f \<in> {DOC_LENGTH, DOC_LENGTH_MIN, AVERAGE_LENGTH}.
             f \<notin> BM25Weight_declared w \<and> \<not> stat_needed w f)"
    using w_len by blast
  have p_none: "(plus_param_k1 p = Fin 0 \<or> plus_param_b p = Fin 0) \<and> plus_param_k2 p = Fin 0 \<longrightarrow>
          (\<forall>f \<in> {DOC_LENGTH, DOC_LENGTH_MIN, AVERAGE_LENGTH}.
             f \<notin> BM25PlusWeight_declared p \<and> \<not> stat_needed p f)"
    using p_len by blast
  have w_wqf: "param_k3 w = Fin 0 \<longrightarrow> WQF \<notin> BM25Weight_declared w"
    using w_q(2) by simp
  have p_wqf: "plus_param_k3 p = Fin 0 \<longrightarrow> WQF \<notin> BM25PlusWeight_declared p"
    using p_q(2) by simp
  note w_six = BM25Weight_declared_flags(6,7) [of w]
  note p_six = BM25PlusWeight_declared_flags(6,7) [of p]
  show ?thesis
    by (intro conjI)
      (rule w_bits w_six w_len w_q w_none w_wqf p_bits p_six p_len p_q p_none p_wqf)+
qed

theorem BM25_declares_witness:
  "param_k1 (new_BM25Weight (Fin 0) (Fin 0) (Fin 0) (Fin (1/2)) (Fin (1/2))) = Fin 0
   \<and> param_k2 (new_BM25Weight (Fin 0) (Fin 0) (Fin 0) (Fin (1/2)) (Fin (1/2))) = Fin 0
   \<and> param_k3 (new_BM25Weight (Fin 0) (Fin 0) (Fin 0) (Fin (1/2)) (Fin (1/2))) = Fin 0
   \<and> DOC_LENGTH \<notin> BM25Weight_declared (new_BM25Weight (Fin 0) (Fin 0) (Fin 0) (Fin (1/2)) (Fin (1/2)))
   \<and> \<not> stat_needed (new_BM25Weight (Fin 0) (Fin 0) (Fin 0) (Fin (1/2)) (Fin (1/2))) DOC_LENGTH
   \<and> \<not> stat_needed (new_BM25Weight (Fin 0) (Fin 0) (Fin 0) (Fin (1/2)) (Fin (1/2))) DOC_LENGTH_MIN
   \<and> \<not> stat_needed (new_BM25Weight (Fin 0) (Fin 0) (Fin 0) (Fin (1/2)) (Fin (1/2))) AVERAGE_LENGTH
   \<and> WQF \<notin> BM25Weight_declared (new_BM25Weight (Fin 0) (Fin 0) (Fin 0) (Fin (1/2)) (Fin (1/2)))
   \<and> stats_needed (new_BM25Weight (Fin 0) (Fin 0) (Fin 0) (Fin (1/2)) (Fin (1/2))) = 67
   \<and> plus_param_k1 (new_BM25PlusWeight (Fin 0) (Fin 0) (Fin 0) (Fin (1/2)) (Fin (1/2)) (Fin 1)) = Fin 0
   \<and> plus_param_k2 (new_BM25PlusWeight (Fin 0) (Fin 0) (Fin 0) (Fin (1/2)) (Fin (1/2)) (Fin 1)) = Fin 0
   \<and> plus_param_k3 (new_BM25PlusWeight (Fin 0) (Fin 0) (Fin 0) (Fin (1/2)) (Fin (1/2)) (Fin 1)) = Fin 0
   \<and> \<not> stat_needed (new_BM25PlusWeight (Fin 0) (Fin 0) (Fin 0) (Fin (1/2)) (Fin (1/2)) (Fin 1)) DOC_LENGTH
   \<and> WQF \<notin> BM25PlusWeight_declared
               (new_BM25PlusWeight (Fin 0) (Fin 0) (Fin 0) (Fin (1/2)) (Fin (1/2)) (Fin 1))
   \<and> stats_needed (new_BM25PlusWeight (Fin 0) (Fin 0) (Fin 0) (Fin (1/2)) (Fin (1/2)) (Fin 1)) = 67"
proof -
  let ?w = "new_BM25Weight (Fin 0) (Fin 0) (Fin 0) (Fin (1/2)) (Fin (1/2))"
  let ?p = "new_BM25PlusWeight (Fin 0) (Fin 0) (Fin 0) (Fin (1/2)) (Fin (1/2)) (Fin 1)"
  have k: "param_k1 ?w = Fin 0" "param_k2 ?w = Fin 0" "param_k3 ?w = Fin 0"
    "plus_param_k1 ?p = Fin 0" "plus_param_k2 ?p = Fin 0" "plus_param_k3 ?p = Fin 0"
    by (simp_all add: new_BM25Weight_params new_BM25PlusWeight_params)
  have v: "stats_needed ?w = 67" "stats_needed ?p = 67"
    unfolding new_BM25Weight_mask new_BM25PlusWeight_mask
      new_BM25Weight_params new_BM25PlusWeight_params
    by (simp_all add: BM25Weight_needs_def BM25PlusWeight_needs_def dne_def)
  note t = BM25_declares_what_parameters_require
             [OF refl refl, of "Fin 0" "Fin 0" "Fin 0" "Fin (1/2)" "Fin (1/2)" "Fin 1"]
  from t k v show ?thesis
    by simp
qed

text \<open>
  The claim as stated fails when \<open>k2\<close> is non-zero: with \<open>k1 = 0\<close> and
  \<open>b = 0\<close> the product \<open>k1 * b\<close> is zero, and \<open>k2 = 1\<close> makes the constructor
  declare all three document-length statistics.
\<close>

theorem BM25_k2_needs_doclen_counterexample:
  "param_k1 (new_BM25Weight (Fin 0) (Fin 1) (Fin 0) (Fin 0) (Fin (1/2))) = Fin 0
   \<and> param_b (new_BM25Weight (Fin 0) (Fin 1) (Fin 0) (Fin 0) (Fin (1/2))) = Fin 0
   \<and> stats_needed (new_BM25Weight (Fin 0) (Fin 1) (Fin 0) (Fin 0) (Fin (1/2))) = 95
   \<and> stat_needed (new_BM25Weight (Fin 0) (Fin 1) (Fin 0) (Fin 0) (Fin (1/2))) DOC_LENGTH
   \<and> stat_needed (new_BM25Weight (Fin 0) (Fin 1) (Fin 0) (Fin 0) (Fin (1/2))) DOC_LENGTH_MIN
   \<and> stat_needed (new_BM25Weight (Fin 0) (Fin 1) (Fin 0) (Fin 0) (Fin (1/2))) AVERAGE_LENGTH
   \<and> DOC_LENGTH \<in> BM25Weight_declared (new_BM25Weight (Fin 0) (Fin 1) (Fin 0) (Fin 0) (Fin (1/2)))
   \<and> stat_needed (new_BM25PlusWeight (Fin 0) (Fin 1) (Fin 0) (Fin 0) (Fin (1/2)) (Fin 1)) DOC_LENGTH"
proof -
  have "stats_needed (new_BM25Weight (Fin 0) (Fin 1) (Fin 0) (Fin 0) (Fin (1/2))) = 95"
    "stats_needed (new_BM25PlusWeight (Fin 0) (Fin 1) (Fin 0) (Fin 0) (Fin (1/2)) (Fin 1)) = 95"
    unfolding new_BM25Weight_mask new_BM25PlusWeight_mask
      new_BM25Weight_params new_BM25PlusWeight_params
    by (simp_all add: BM25Weight_needs_def BM25PlusWeight_needs_def dne_def)
  then show ?thesis
    by (simp add: stat_needed_def new_BM25Weight_params BM25Weight_declared_flags dne_def dgt_def)
qed

text \<open>
  C10, as the code has it.  The constructors never fail.  A negative \<open>k1\<close>,
  \<open>k2\<close>, \<open>k3\<close> (and \<open>delta\<close>) is replaced by 0 and any other value is stored
  as it is; a \<open>b\<close> below 0 becomes 0, a \<open>b\<close> above 1 becomes 1 and any other
  value is stored as it is; \<open>min_normlen\<close> is stored as it is.  A NaN is
  neither negative nor above 1, so a NaN argument is stored unchanged: the
  members satisfy \<open>k1, k2, k3 \<ge> 0\<close> (and \<open>delta \<ge> 0\<close>) and \<open>0 \<le> b \<le> 1\<close> for
  every argument that is not a NaN.
\<close>

theorem BM25_constructors_sanitise:
  "(dlt k1 (Fin 0) \<longrightarrow> param_k1 (new_BM25Weight k1 k2 k3 b mn) = Fin 0)
   \<and> (dlt k2 (Fin 0) \<longrightarrow> param_k2 (new_BM25Weight k1 k2 k3 b mn) = Fin 0)
   \<and> (dlt k3 (Fin 0) \<longrightarrow> param_k3 (new_BM25Weight k1 k2 k3 b mn) = Fin 0)
   \<and> (dlt b (Fin 0) \<longrightarrow> param_b (new_BM25Weight k1 k2 k3 b mn) = Fin 0)
   \<and> (dgt b (Fin 1) \<longrightarrow> param_b (new_BM25Weight k1 k2 k3 b mn) = Fin 1)
   \<and> (\<not> dlt k1 (Fin 0) \<longrightarrow> param_k1 (new_BM25Weight k1 k2 k3 b mn) = k1)
   \<and> (\<not> dlt k2 (Fin 0) \<longrightarrow> param_k2 (new_BM25Weight k1 k2 k3 b mn) = k2)
   \<and> (\<not> dlt k3 (Fin 0) \<longrightarrow> param_k3 (new_BM25Weight k1 k2 k3 b mn) = k3)
   \<and> (\<not> dlt b (Fin 0) \<and> \<not> dgt b (Fin 1) \<longrightarrow> param_b (new_BM25Weight k1 k2 k3 b mn) = b)
   \<and> param_min_normlen (new_BM25Weight k1 k2 k3 b mn) = mn
   \<and> param_k1 (new_BM25Weight NaN k2 k3 b mn) = NaN
   \<and> param_k2 (new_BM25Weight k1 NaN k3 b mn) = NaN
   \<and> param_k3 (new_BM25Weight k1 k2 NaN b mn) = NaN
   \<and> param_b (new_BM25Weight k1 k2 k3 NaN mn) = NaN
   \<and> (k1 \<noteq> NaN \<longrightarrow> dge (param_k1 (new_BM25Weight k1 k2 k3 b mn)) (Fin 0))
   \<and> (k2 \<noteq> NaN \<longrightarrow> dge (param_k2 (new_BM25Weight k1 k2 k3 b mn)) (Fin 0))
   \<and> (k3 \<noteq> NaN \<longrightarrow> dge (param_k3 (new_BM25Weight k1 k2 k3 b mn)) (Fin 0))
   \<and> (b \<noteq> NaN \<longrightarrow> dge (param_b (new_BM25Weight k1 k2 k3 b mn)) (Fin 0)
                    \<and> dle (param_b (new_BM25Weight k1 k2 k3 b mn)) (Fin 1))
   \<and> (dlt k1 (Fin 0) \<longrightarrow> plus_param_k1 (new_BM25PlusWeight k1 k2 k3 b mn delta) = Fin 0)
   \<and> (dlt k2 (Fin 0) \<longrightarrow> plus_param_k2 (new_BM25PlusWeight k1 k2 k3 b mn delta) = Fin 0)
   \<and> (dlt k3 (Fin 0) \<longrightarrow> plus_param_k3 (new_BM25PlusWeight k1 k2 k3 b mn delta) = Fin 0)
   \<and> (dlt delta (Fin 0) \<longrightarrow> plus_param_delta (new_BM25PlusWeight k1 k2 k3 b mn delta) = Fin 0)
   \<and> (dlt b (Fin 0) \<longrightarrow> plus_param_b (new_BM25PlusWeight k1 k2 k3 b mn delta) = Fin 0)
   \<and> (dgt b (Fin 1) \<longrightarrow> plus_param_b (new_BM25PlusWeight k1 k2 k3 b mn delta) = Fin 1)
   \<and> (\<not> dlt k1 (Fin 0) \<longrightarrow> plus_param_k1 (new_BM25PlusWeight k1 k2 k3 b mn delta) = k1)
   \<and> (\<not> dlt k2 (Fin 0) \<longrightarrow> plus_param_k2 (new_BM25PlusWeight k1 k2 k3 b mn delta) = k2)
   \<and> (\<not> dlt k3 (Fin 0) \<longrightarrow> plus_param_k3 (new_BM25PlusWeight k1 k2 k3 b mn delta) = k3)
   \<and> (\<not> dlt delta (Fin 0) \<longrightarrow>
        plus_param_delta (new_BM25PlusWeight k1 k2 k3 b mn delta) = delta)
   \<and> (\<not> dlt b (Fin 0) \<and> \<not> dgt b (Fin 1) \<longrightarrow>
        plus_param_b (new_BM25PlusWeight k1 k2 k3 b mn delta) = b)
   \<and> plus_param_min_normlen (new_BM25PlusWeight k1 k2 k3 b mn delta) = mn
   \<and> plus_param_k1 (new_BM25PlusWeight NaN k2 k3 b mn delta) = NaN
   \<and> plus_param_k2 (new_BM25PlusWeight k1 NaN k3 b mn delta) = NaN
   \<and> plus_param_k3 (new_BM25PlusWeight k1 k2 NaN b mn delta) = NaN
   \<and> plus_param_b (new_BM25PlusWeight k1 k2 k3 NaN mn delta) = NaN
   \<and> plus_param_delta (new_BM25PlusWeight k1 k2 k3 b mn NaN) = NaN
   \<and> (k1 \<noteq> NaN \<longrightarrow> dge (plus_param_k1 (new_BM25PlusWeight k1 k2 k3 b mn delta)) (Fin 0))
   \<and> (k2 \<noteq> NaN \<longrightarrow> dge (plus_param_k2 (new_BM25PlusWeight k1 k2 k3 b mn delta)) (Fin 0))
   \<and> (k3 \<noteq> NaN \<longrightarrow> dge (plus_param_k3 (new_BM25PlusWeight k1 k2 k3 b mn delta)) (Fin 0))
   \<and> (delta \<noteq> NaN \<longrightarrow> dge (plus_param_delta (new_BM25PlusWeight k1 k2 k3 b mn delta)) (Fin 0))
   \<and> (b \<noteq> NaN \<longrightarrow> dge (plus_param_b (new_BM25PlusWeight k1 k2 k3 b mn delta)) (Fin 0)
                    \<and> dle (plus_param_b (new_BM25PlusWeight k1 k2 k3 b mn delta)) (Fin 1))"
  unfolding new_BM25Weight_params new_BM25PlusWeight_params
  by (intro conjI impI) (simp_all add: clamp_nonneg clamp_unit dgt_one_not_neg dgt_def)

theorem BM25_constructors_sanitise_witness:
  "dlt (Fin (- 1)) (Fin 0) \<and> dlt (Fin (- 2)) (Fin 0) \<and> dlt (Fin (- 3)) (Fin 0)
   \<and> dgt (Fin 2) (Fin 1)
   \<and> param_k1 (new_BM25Weight (Fin (- 1)) (Fin (- 2)) (Fin (- 3)) (Fin 2) (Fin (1/2))) = Fin 0
   \<and> param_k2 (new_BM25Weight (Fin (- 1)) (Fin (- 2)) (Fin (- 3)) (Fin 2) (Fin (1/2))) = Fin 0
   \<and> param_k3 (new_BM25Weight (Fin (- 1)) (Fin (- 2)) (Fin (- 3)) (Fin 2) (Fin (1/2))) = Fin 0
   \<and> param_b (new_BM25Weight (Fin (- 1)) (Fin (- 2)) (Fin (- 3)) (Fin 2) (Fin (1/2))) = Fin 1
   \<and> dge (param_k1 (new_BM25Weight (Fin (- 1)) (Fin (- 2)) (Fin (- 3)) (Fin 2) (Fin (1/2)))) (Fin 0)
   \<and> dle (param_b (new_BM25Weight (Fin (- 1)) (Fin (- 2)) (Fin (- 3)) (Fin 2) (Fin (1/2)))) (Fin 1)
   \<and> plus_param_delta
        (new_BM25PlusWeight (Fin (- 1)) (Fin (- 2)) (Fin (- 3)) (Fin 2) (Fin (1/2)) (Fin (- 1))) = Fin 0
   \<and> plus_param_b
        (new_BM25PlusWeight (Fin (- 1)) (Fin (- 2)) (Fin (- 3)) (Fin 2) (Fin (1/2)) (Fin (- 1))) = Fin 1
   \<and> \<not> dlt (Fin 1) (Fin 0) \<and> \<not> dlt (Fin 0) (Fin 0) \<and> \<not> dlt (Fin (1/2)) (Fin 0)
   \<and> \<not> dgt (Fin (1/2)) (Fin 1)
   \<and> param_k1 (new_BM25Weight (Fin 1) (Fin 0) (Fin 1) (Fin (1/2)) (Fin (1/2))) = Fin 1
   \<and> param_k2 (new_BM25Weight (Fin 1) (Fin 0) (Fin 1) (Fin (1/2)) (Fin (1/2))) = Fin 0
   \<and> param_k3 (new_BM25Weight (Fin 1) (Fin 0) (Fin 1) (Fin (1/2)) (Fin (1/2))) = Fin 1
   \<and> param_b (new_BM25Weight (Fin 1) (Fin 0) (Fin 1) (Fin (1/2)) (Fin (1/2))) = Fin (1/2)
   \<and> plus_param_delta
        (new_BM25PlusWeight (Fin 1) (Fin 0) (Fin 1) (Fin (1/2)) (Fin (1/2)) (Fin 1)) = Fin 1
   \<and> plus_param_b
        (new_BM25PlusWeight (Fin 1) (Fin 0) (Fin 1) (Fin (1/2)) (Fin (1/2)) (Fin 1)) = Fin (1/2)
   \<and> dlt (Fin (- 1)) (Fin 0)
   \<and> param_b (new_BM25Weight (Fin 1) (Fin 0) (Fin 1) (Fin (- 1)) (Fin (1/2))) = Fin 0"
proof -
  have h: "dlt (Fin (- 1)) (Fin 0)" "dlt (Fin (- 2)) (Fin 0)" "dlt (Fin (- 3)) (Fin 0)"
    "dgt (Fin 2) (Fin 1)" "Fin (- 1) \<noteq> NaN" "Fin (- 2) \<noteq> NaN" "Fin (- 3) \<noteq> NaN" "Fin 2 \<noteq> NaN"
    "\<not> dlt (Fin 1) (Fin 0)" "\<not> dlt (Fin 0) (Fin 0)" "\<not> dlt (Fin (1/2)) (Fin 0)"
    "\<not> dgt (Fin (1/2)) (Fin 1)"
    by (simp_all add: dgt_def)
  note t1 = BM25_constructors_sanitise
              [of "Fin (- 1)" "Fin (- 2)" "Fin (- 3)" "Fin 2" "Fin (1/2)" "Fin (- 1)"]
  note t2 = BM25_constructors_sanitise
              [of "Fin 1" "Fin 0" "Fin 1" "Fin (- 1)" "Fin (1/2)" "Fin 1"]
  note t3 = BM25_constructors_sanitise
              [of "Fin 1" "Fin 0" "Fin 1" "Fin (1/2)" "Fin (1/2)" "Fin 1"]
  from t1 h have a: "param_k1 (new_BM25Weight (Fin (- 1)) (Fin (- 2)) (Fin (- 3)) (Fin 2) (Fin (1/2))) = Fin 0
   \<and> param_k2 (new_BM25Weight (Fin (- 1)) (Fin (- 2)) (Fin (- 3)) (Fin 2) (Fin (1/2))) = Fin 0
   \<and> param_k3 (new_BM25Weight (Fin (- 1)) (Fin (- 2)) (Fin (- 3)) (Fin 2) (Fin (1/2))) = Fin 0
   \<and> param_b (new_BM25Weight (Fin (- 1)) (Fin (- 2)) (Fin (- 3)) (Fin 2) (Fin (1/2))) = Fin 1
   \<and> dge (param_k1 (new_BM25Weight (Fin (- 1)) (Fin (- 2)) (Fin (- 3)) (Fin 2) (Fin (1/2)))) (Fin 0)
   \<and> dle (param_b (new_BM25Weight (Fin (- 1)) (Fin (- 2)) (Fin (- 3)) (Fin 2) (Fin (1/2)))) (Fin 1)
   \<and> plus_param_delta
        (new_BM25PlusWeight (Fin (- 1)) (Fin (- 2)) (Fin (- 3)) (Fin 2) (Fin (1/2)) (Fin (- 1))) = Fin 0
   \<and> plus_param_b
        (new_BM25PlusWeight (Fin (- 1)) (Fin (- 2)) (Fin (- 3)) (Fin 2) (Fin (1/2)) (Fin (- 1))) = Fin 1"
    by blast
  from t3 h have c: "param_k1 (new_BM25Weight (Fin 1) (Fin 0) (Fin 1) (Fin (1/2)) (Fin (1/2))) = Fin 1
   \<and> param_k2 (new_BM25Weight (Fin 1) (Fin 0) (Fin 1) (Fin (1/2)) (Fin (1/2))) = Fin 0
   \<and> param_k3 (new_BM25Weight (Fin 1) (Fin 0) (Fin 1) (Fin (1/2)) (Fin (1/2))) = Fin 1
   \<and> param_b (new_BM25Weight (Fin 1) (Fin 0) (Fin 1) (Fin (1/2)) (Fin (1/2))) = Fin (1/2)
   \<and> plus_param_delta
        (new_BM25PlusWeight (Fin 1) (Fin 0) (Fin 1) (Fin (1/2)) (Fin (1/2)) (Fin 1)) = Fin 1
   \<and> plus_param_b
        (new_BM25PlusWeight (Fin 1) (Fin 0) (Fin 1) (Fin (1/2)) (Fin (1/2)) (Fin 1)) = Fin (1/2)"
    by blast
  from t2 h have d: "param_b (new_BM25Weight (Fin 1) (Fin 0) (Fin 1) (Fin (- 1)) (Fin (1/2))) = Fin 0"
    by blast
  from a c d h show ?thesis
    by blast
qed

text \<open>
  The claim as stated fails at a NaN argument: it is kept, and a NaN is
  neither \<open>\<ge> 0\<close> nor inside \<open>[0, 1]\<close>.
\<close>

theorem BM25_NaN_counterexample:
  "param_k1 (new_BM25Weight NaN (Fin 0) (Fin 0) (Fin 0) (Fin 0)) = NaN
   \<and> \<not> dge (param_k1 (new_BM25Weight NaN (Fin 0) (Fin 0) (Fin 0) (Fin 0))) (Fin 0)
   \<and> \<not> dge (param_b (new_BM25Weight (Fin 1) (Fin 0) (Fin 1) NaN (Fin (1/2)))) (Fin 0)
   \<and> \<not> dle (param_b (new_BM25Weight (Fin 1) (Fin 0) (Fin 1) NaN (Fin (1/2)))) (Fin 1)
   \<and> \<not> dge (plus_param_delta
              (new_BM25PlusWeight (Fin 1) (Fin 0) (Fin 1) (Fin (1/2)) (Fin (1/2)) NaN)) (Fin 0)"
  by (simp add: new_BM25Weight_params new_BM25PlusWeight_params dge_def dle_def dgt_def)

end
